theory Spec2Isabelle
  imports Main "HOL-Library.Word"
begin

unbundle bit_operations_syntax

section \<open>Frame and message codecs of the Cassandra native protocol\<close>

text \<open>
  A shallow embedding of \<^verbatim>\<open>cassandraprotocol/frame/encoder.go\<close> and of the message
  codecs \<^verbatim>\<open>AuthChallengeCodec\<close>, \<^verbatim>\<open>AuthResponseCodec\<close>, \<^verbatim>\<open>ReadyCodec\<close> and
  \<^verbatim>\<open>EventCodec\<close>. Every function keeps the name, the branch order and the checks of
  the Go function it embeds.
\<close>

subsection \<open>Wire types\<close>

type_synonym byte = "8 word"
type_synonym bytes = "byte list"

text \<open>
  \<^verbatim>\<open>ProtocolVersion\<close>, \<^verbatim>\<open>OpCode\<close> and \<^verbatim>\<open>HeaderFlag\<close> are written with
  \<^verbatim>\<open>primitives.WriteByte\<close> and combined with \<^verbatim>\<open>|=\<close>: they are unsigned 8-bit integers,
  and \<^verbatim>\<open>version < ProtocolVersion4\<close> is the unsigned comparison.
\<close>

type_synonym ProtocolVersion = "8 word"
type_synonym OpCode = "8 word"
type_synonym HeaderFlag = "8 word"

text \<open>
  Modelled from the spec: the constants of package \<^verbatim>\<open>cassandraprotocol\<close> are not part of
  the sources at hand. The spec gives the versions (3, 4 and the beta marker of version 5),
  the flag bits (0x01 compressed, 0x02 tracing, 0x04 custom-payload, 0x08 warning,
  0x10 use-beta) and the opcodes READY = 0x02, EVENT = 0x0C and AUTH_CHALLENGE = 0x0E; the
  remaining opcodes are those of the native protocol.
\<close>

definition ProtocolVersion3 :: ProtocolVersion where "ProtocolVersion3 = 3"
definition ProtocolVersion4 :: ProtocolVersion where "ProtocolVersion4 = 4"
definition ProtocolVersionBeta :: ProtocolVersion where "ProtocolVersionBeta = 5"

definition OpCodeStartup :: OpCode where "OpCodeStartup = 0x01"
definition OpCodeReady :: OpCode where "OpCodeReady = 0x02"
definition OpCodeOptions :: OpCode where "OpCodeOptions = 0x05"
definition OpCodeEvent :: OpCode where "OpCodeEvent = 0x0C"
definition OpCodeAuthChallenge :: OpCode where "OpCodeAuthChallenge = 0x0E"
definition OpCodeAuthResponse :: OpCode where "OpCodeAuthResponse = 0x0F"

definition HeaderFlagCompressed :: HeaderFlag where "HeaderFlagCompressed = 0x01"
definition HeaderFlagTracing :: HeaderFlag where "HeaderFlagTracing = 0x02"
definition HeaderFlagCustomPayload :: HeaderFlag where "HeaderFlagCustomPayload = 0x04"
definition HeaderFlagWarning :: HeaderFlag where "HeaderFlagWarning = 0x08"
definition HeaderFlagUseBeta :: HeaderFlag where "HeaderFlagUseBeta = 0x10"

definition EventTypeSchemaChange :: string where "EventTypeSchemaChange = ''SCHEMA_CHANGE''"
definition EventTypeStatusChange :: string where "EventTypeStatusChange = ''STATUS_CHANGE''"
definition EventTypeTopologyChange :: string where "EventTypeTopologyChange = ''TOPOLOGY_CHANGE''"

definition SchemaChangeTargetKeyspace :: string where "SchemaChangeTargetKeyspace = ''KEYSPACE''"
definition SchemaChangeTargetTable :: string where "SchemaChangeTargetTable = ''TABLE''"
definition SchemaChangeTargetType :: string where "SchemaChangeTargetType = ''TYPE''"
definition SchemaChangeTargetFunction :: string where "SchemaChangeTargetFunction = ''FUNCTION''"
definition SchemaChangeTargetAggregate :: string where "SchemaChangeTargetAggregate = ''AGGREGATE''"

subsection \<open>Errors, panics and results\<close>

text \<open>
  The Go code builds its errors with \<^verbatim>\<open>errors.New\<close> and \<^verbatim>\<open>fmt.Errorf\<close>; one
  constructor stands for each message template, \<open>Wrapped\<close> for \<^verbatim>\<open>fmt.Errorf("...: %w", err)\<close>.
  \<open>ShortRead\<close> and \<open>InvalidEncoding\<close> are the failures of the primitive readers.
\<close>

datatype error =
    CustomPayloadsNotSupported ProtocolVersion
  | WarningsNotSupported ProtocolVersion
  | UnsupportedOpcode OpCode
  | ExpectedType string
  | SchemaChangeNotSupported string ProtocolVersion
  | UnknownSchemaChangeTarget string
  | UnknownEventType string
  | ShortRead
  | InvalidEncoding
  | Wrapped string error

text \<open>
  A call returns normally (\<open>Ok\<close>), returns a non-nil \<^verbatim>\<open>error\<close> (\<open>Err\<close>), or panics at
  run time (\<open>Panic\<close>): an unchecked type assertion \<^verbatim>\<open>msg.(*T)\<close> on a value of another
  dynamic type panics, the checked form \<^verbatim>\<open>v, ok := msg.(*T)\<close> does not.
\<close>

datatype 'a result = Ok 'a | Err error | Panic

fun and_then :: "'a result \<Rightarrow> ('a \<Rightarrow> 'b result) \<Rightarrow> 'b result" where
  "and_then (Ok x) f = f x"
| "and_then (Err e) f = Err e"
| "and_then Panic f = Panic"

fun wrap :: "string \<Rightarrow> 'a result \<Rightarrow> 'a result" where
  "wrap ctx (Ok x) = Ok x"
| "wrap ctx (Err e) = Err (Wrapped ctx e)"
| "wrap ctx Panic = Panic"

subsection \<open>Messages\<close>

text \<open>
  \<^verbatim>\<open>UUID\<close> is a 16-byte array; it is a 128-bit word here, written most significant byte
  first. A Go \<^verbatim>\<open>string\<close> is a byte sequence, as \<open>string\<close> is. A \<^verbatim>\<open>[]byte\<close>, a slice or a
  map that the code compares with \<^verbatim>\<open>nil\<close> is an option, \<open>None\<close> being \<^verbatim>\<open>nil\<close>; a map is an
  association list in the order in which it is iterated.
\<close>

type_synonym UUID = "128 word"

record Inet =
  Addr :: bytes
  Port :: "32 word"

record Event =
  ev_Type :: string

record SchemaChangeEvent = Event +
  sce_ChangeType :: string
  sce_Target :: string
  sce_Keyspace :: string
  sce_Object :: string
  sce_Arguments :: "string list"

record StatusChangeEvent = Event +
  stce_ChangeType :: string
  stce_Address :: Inet

record TopologyChangeEvent = Event +
  tce_ChangeType :: string
  tce_Address :: Inet

text \<open>
  A value of the interface \<^verbatim>\<open>Message\<close>: one constructor for each dynamic type
  (a non-nil pointer to the struct). \<^verbatim>\<open>SchemaChangeEvent\<close>, \<^verbatim>\<open>StatusChangeEvent\<close> and
  \<^verbatim>\<open>TopologyChangeEvent\<close> embed the struct \<^verbatim>\<open>Event\<close>; as dynamic types, \<^verbatim>\<open>*Event\<close> and
  the three are four different types.
\<close>

datatype Message =
    AuthChallenge "bytes option"
  | AuthResponse "bytes option"
  | Ready
  | EventMsg Event
  | SchemaChangeEventMsg SchemaChangeEvent
  | StatusChangeEventMsg StatusChangeEvent
  | TopologyChangeEventMsg TopologyChangeEvent

text \<open>
  \<^verbatim>\<open>IsResponse\<close> and \<^verbatim>\<open>GetOpCode\<close> of \<^verbatim>\<open>AuthChallenge\<close>, \<^verbatim>\<open>AuthResponse\<close> and \<^verbatim>\<open>Ready\<close>
  are the source's. Modelled from the spec: the methods of the event structs are not part
  of the sources at hand; the spec has EVENT as a response with opcode EVENT.
\<close>

fun IsResponse :: "Message \<Rightarrow> bool" where
  "IsResponse (AuthChallenge token) = True"
| "IsResponse (AuthResponse token) = False"
| "IsResponse Ready = False"
| "IsResponse (EventMsg e) = True"
| "IsResponse (SchemaChangeEventMsg e) = True"
| "IsResponse (StatusChangeEventMsg e) = True"
| "IsResponse (TopologyChangeEventMsg e) = True"

fun GetOpCode :: "Message \<Rightarrow> OpCode" where
  "GetOpCode (AuthChallenge token) = OpCodeAuthChallenge"
| "GetOpCode (AuthResponse token) = OpCodeAuthResponse"
| "GetOpCode Ready = OpCodeReady"
| "GetOpCode (EventMsg e) = OpCodeEvent"
| "GetOpCode (SchemaChangeEventMsg e) = OpCodeEvent"
| "GetOpCode (StatusChangeEventMsg e) = OpCodeEvent"
| "GetOpCode (TopologyChangeEventMsg e) = OpCodeEvent"

subsection \<open>Primitives writing to an \<^verbatim>\<open>io.Writer\<close>\<close>

text \<open>
  Modelled from the spec: package \<^verbatim>\<open>primitives\<close> is not part of the sources at hand. The
  spec's table of wire layouts gives each writer and its length predictor: byte (1 byte),
  short (2 bytes, big-endian), int (4 bytes, big-endian), uuid (16 bytes verbatim), string
  (short \<open>n\<close>, then \<open>n\<close> bytes), bytes (int \<open>n\<close>, then \<open>n\<close> bytes, \<open>n = -1\<close> for absent),
  string-list (short \<open>n\<close>, then \<open>n\<close> strings), bytes-map (short \<open>n\<close>, then \<open>n\<close> entries of
  a string and a bytes). A writer appends to its destination and returns the destination
  as it is afterwards.
\<close>

definition short_bytes :: "16 word \<Rightarrow> bytes" where
  "short_bytes w = [ucast (drop_bit 8 w), ucast w]"

definition int_bytes :: "32 word \<Rightarrow> bytes" where
  "int_bytes w = [ucast (drop_bit 24 w), ucast (drop_bit 16 w), ucast (drop_bit 8 w), ucast w]"

definition uuid_bytes :: "UUID \<Rightarrow> bytes" where
  "uuid_bytes u = map (\<lambda>i. ucast (drop_bit (8 * (15 - i)) u)) [0..<16]"

definition string_bytes :: "string \<Rightarrow> bytes" where
  "string_bytes s = short_bytes (of_nat (length s)) @ map of_char s"

definition bytes_bytes :: "bytes option \<Rightarrow> bytes" where
  "bytes_bytes b = (case b of None \<Rightarrow> int_bytes (- 1)
                    | Some bs \<Rightarrow> int_bytes (of_nat (length bs)) @ bs)"

definition string_list_bytes :: "string list \<Rightarrow> bytes" where
  "string_list_bytes l = short_bytes (of_nat (length l)) @ concat (map string_bytes l)"

definition bytes_map_bytes :: "(string \<times> bytes option) list \<Rightarrow> bytes" where
  "bytes_map_bytes m =
     short_bytes (of_nat (length m)) @ concat (map (\<lambda>(k, v). string_bytes k @ bytes_bytes v) m)"

definition WriteByte :: "byte \<Rightarrow> bytes \<Rightarrow> bytes result" where
  "WriteByte b dest = Ok (dest @ [b])"

definition WriteShort :: "16 word \<Rightarrow> bytes \<Rightarrow> bytes result" where
  "WriteShort w dest = Ok (dest @ short_bytes w)"

definition WriteInt :: "32 word \<Rightarrow> bytes \<Rightarrow> bytes result" where
  "WriteInt w dest = Ok (dest @ int_bytes w)"

definition WriteUuid :: "UUID \<Rightarrow> bytes \<Rightarrow> bytes result" where
  "WriteUuid u dest = Ok (dest @ uuid_bytes u)"

definition WriteBytes :: "bytes option \<Rightarrow> bytes \<Rightarrow> bytes result" where
  "WriteBytes b dest = Ok (dest @ bytes_bytes b)"

definition WriteString :: "string \<Rightarrow> bytes \<Rightarrow> bytes result" where
  "WriteString s dest = Ok (dest @ string_bytes s)"

definition WriteStringList :: "string list \<Rightarrow> bytes \<Rightarrow> bytes result" where
  "WriteStringList l dest = Ok (dest @ string_list_bytes l)"

definition WriteBytesMap :: "(string \<times> bytes option) list \<Rightarrow> bytes \<Rightarrow> bytes result" where
  "WriteBytesMap m dest = Ok (dest @ bytes_map_bytes m)"

definition LengthOfUuid :: int where
  "LengthOfUuid = 16"

definition LengthOfString :: "string \<Rightarrow> int" where
  "LengthOfString s = 2 + int (length s)"

definition LengthOfBytes :: "bytes option \<Rightarrow> int" where
  "LengthOfBytes b = 4 + (case b of None \<Rightarrow> 0 | Some bs \<Rightarrow> int (length bs))"

definition LengthOfStringList :: "string list \<Rightarrow> int" where
  "LengthOfStringList l = 2 + sum_list (map LengthOfString l)"

definition LengthOfBytesMap :: "(string \<times> bytes option) list \<Rightarrow> int" where
  "LengthOfBytesMap m = 2 + sum_list (map (\<lambda>(k, v). LengthOfString k + LengthOfBytes v) m)"

subsection \<open>\<^verbatim>\<open>AuthChallengeCodec\<close>, \<^verbatim>\<open>AuthResponseCodec\<close>, \<^verbatim>\<open>ReadyCodec\<close>\<close>

text \<open>
  \<^verbatim>\<open>AuthChallengeCodec\<close> asserts the type of its message in the checked form and returns
  an error otherwise.
\<close>

fun AuthChallengeCodec_Encode :: "Message \<Rightarrow> bytes \<Rightarrow> ProtocolVersion \<Rightarrow> bytes result" where
  "AuthChallengeCodec_Encode (AuthChallenge token) dest v = WriteBytes token dest"
| "AuthChallengeCodec_Encode msg dest v = Err (ExpectedType ''*AuthChallenge'')"

fun AuthChallengeCodec_EncodedLength :: "Message \<Rightarrow> ProtocolVersion \<Rightarrow> int result" where
  "AuthChallengeCodec_EncodedLength (AuthChallenge token) v = Ok (LengthOfBytes token)"
| "AuthChallengeCodec_EncodedLength msg v = Err (ExpectedType ''*AuthChallenge'')"

text \<open>
  \<^verbatim>\<open>AuthResponseCodec\<close> asserts the type in the unchecked form,
  \<^verbatim>\<open>authResponse := msg.(*AuthResponse)\<close>, which panics on any other message.
\<close>

fun AuthResponseCodec_Encode :: "Message \<Rightarrow> bytes \<Rightarrow> ProtocolVersion \<Rightarrow> bytes result" where
  "AuthResponseCodec_Encode (AuthResponse token) dest v = WriteBytes token dest"
| "AuthResponseCodec_Encode msg dest v = Panic"

fun AuthResponseCodec_EncodedLength :: "Message \<Rightarrow> ProtocolVersion \<Rightarrow> int result" where
  "AuthResponseCodec_EncodedLength (AuthResponse token) v = Ok (LengthOfBytes token)"
| "AuthResponseCodec_EncodedLength msg v = Panic"

text \<open>\<^verbatim>\<open>ReadyCodec\<close> ignores every argument; its \<^verbatim>\<open>Decode\<close> leaves the source unread.\<close>

definition ReadyCodec_Encode :: "Message \<Rightarrow> bytes \<Rightarrow> ProtocolVersion \<Rightarrow> bytes result" where
  "ReadyCodec_Encode msg dest v = Ok dest"

definition ReadyCodec_EncodedLength :: "Message \<Rightarrow> ProtocolVersion \<Rightarrow> int result" where
  "ReadyCodec_EncodedLength msg v = Ok 0"

definition ReadyCodec_Decode :: "bytes \<Rightarrow> ProtocolVersion \<Rightarrow> (Message \<times> bytes) result" where
  "ReadyCodec_Decode source v = Ok (Ready, source)"

subsection \<open>Frames and the frame codec\<close>

text \<open>
  The fields of \<^verbatim>\<open>Frame\<close>, \<^verbatim>\<open>Header\<close> and \<^verbatim>\<open>Body\<close> that the encoder reads.
  \<^verbatim>\<open>StreamId\<close> is a signed 16-bit integer which the encoder converts with \<^verbatim>\<open>uint16\<close>:
  the same 16 bits.
\<close>

record Header =
  Version :: ProtocolVersion
  StreamId :: "16 word"
  TracingRequested :: bool

record Body =
  Message :: Message
  TracingId :: "UUID option"
  CustomPayload :: "(string \<times> bytes option) list option"
  Warnings :: "string list option"

record Frame =
  Header :: Header
  Body :: Body

text \<open>
  The interface \<^verbatim>\<open>message.Encoder\<close> as the frame codec calls it, and the frame codec:
  the registry \<^verbatim>\<open>codecs\<close> from opcodes to encoders and the optional compressor
  (\<open>None\<close> is \<^verbatim>\<open>nil\<close>), of which the encoder calls \<^verbatim>\<open>Compress\<close>.
\<close>

record Encoder =
  enc_Encode :: "Message \<Rightarrow> bytes \<Rightarrow> ProtocolVersion \<Rightarrow> bytes result"
  enc_EncodedLength :: "Message \<Rightarrow> ProtocolVersion \<Rightarrow> int result"

record Codec =
  codecs :: "OpCode \<Rightarrow> Encoder option"
  compressor :: "(bytes \<Rightarrow> bytes result) option"

definition encodedHeaderLength :: int where
  "encodedHeaderLength = 9"

definition findEncoder :: "Codec \<Rightarrow> Frame \<Rightarrow> Encoder result" where
  "findEncoder c frame =
     (let opCode = GetOpCode (Message (Body frame))
      in case codecs c opCode of
           None \<Rightarrow> Err (UnsupportedOpcode opCode)
         | Some encoder \<Rightarrow> Ok encoder)"

definition shouldCompress :: "Codec \<Rightarrow> Frame \<Rightarrow> bool" where
  "shouldCompress c frame =
     (let opCode = GetOpCode (Message (Body frame))
      in compressor c \<noteq> None \<and> opCode \<noteq> OpCodeStartup \<and> opCode \<noteq> OpCodeOptions)"

definition encodeFlags :: "Codec \<Rightarrow> Frame \<Rightarrow> HeaderFlag" where
  "encodeFlags c frame =
     (let flags = 0;
          flags = (if shouldCompress c frame then flags OR HeaderFlagCompressed else flags);
          flags = (if TracingId (Body frame) \<noteq> None \<or> TracingRequested (Header frame)
                   then flags OR HeaderFlagTracing else flags);
          flags = (if CustomPayload (Body frame) \<noteq> None
                   then flags OR HeaderFlagCustomPayload else flags);
          flags = (if Warnings (Body frame) \<noteq> None then flags OR HeaderFlagWarning else flags);
          flags = (if Version (Header frame) = ProtocolVersionBeta
                   then flags OR HeaderFlagUseBeta else flags)
      in flags)"

text \<open>
  \<^verbatim>\<open>bodyLength\<close> is a Go \<^verbatim>\<open>int\<close>, an integer here; \<^verbatim>\<open>int32(bodyLength)\<close> keeps its low
  32 bits.
\<close>

definition encodeHeader :: "Codec \<Rightarrow> Frame \<Rightarrow> int \<Rightarrow> bytes \<Rightarrow> bytes result" where
  "encodeHeader c frame bodyLength dest =
     (let versionAndDirection =
            (if IsResponse (Message (Body frame))
             then Version (Header frame) OR 0x80 else Version (Header frame))
      in and_then (wrap ''cannot encode header version and direction''
                     (WriteByte versionAndDirection dest)) (\<lambda>dest.
         let flags = encodeFlags c frame
         in and_then (wrap ''cannot encode header flags'' (WriteByte flags dest)) (\<lambda>dest.
            and_then (wrap ''cannot encode header stream id''
                        (WriteShort (StreamId (Header frame)) dest)) (\<lambda>dest.
            and_then (wrap ''cannot encode header opcode''
                        (WriteByte (GetOpCode (Message (Body frame))) dest)) (\<lambda>dest.
            wrap ''cannot encode header body length''
              (WriteInt (word_of_int bodyLength) dest))))))"

text \<open>
  The length adds \<^verbatim>\<open>LengthOfUuid\<close> whenever \<^verbatim>\<open>TracingId\<close> is not nil; the error of
  \<^verbatim>\<open>findEncoder\<close> is returned as it is, that of \<^verbatim>\<open>EncodedLength\<close> wrapped.
\<close>

definition uncompressedBodyLength :: "Codec \<Rightarrow> Frame \<Rightarrow> int result" where
  "uncompressedBodyLength c frame =
     and_then (findEncoder c frame) (\<lambda>encoder.
     and_then (wrap ''cannot compute message length''
                 (enc_EncodedLength encoder (Message (Body frame)) (Version (Header frame))))
       (\<lambda>length.
     let length = (if TracingId (Body frame) \<noteq> None then length + LengthOfUuid else length);
         length = (case CustomPayload (Body frame) of
                     None \<Rightarrow> length
                   | Some m \<Rightarrow> length + LengthOfBytesMap m);
         length = (case Warnings (Body frame) of
                     None \<Rightarrow> length
                   | Some l \<Rightarrow> length + LengthOfStringList l)
     in Ok length))"

text \<open>
  The body writes the tracing id only when the message is a response and \<^verbatim>\<open>TracingId\<close>
  is not nil.
\<close>

definition encodeBodyUncompressed :: "Codec \<Rightarrow> Frame \<Rightarrow> bytes \<Rightarrow> bytes result" where
  "encodeBodyUncompressed c frame dest =
     and_then (case TracingId (Body frame) of
                 None \<Rightarrow> Ok dest
               | Some u \<Rightarrow>
                   if IsResponse (Message (Body frame))
                   then wrap ''cannot encode body tracing id'' (WriteUuid u dest)
                   else Ok dest) (\<lambda>dest.
     and_then (case CustomPayload (Body frame) of
                 None \<Rightarrow> Ok dest
               | Some m \<Rightarrow> wrap ''cannot encode body custom payload'' (WriteBytesMap m dest))
       (\<lambda>dest.
     and_then (case Warnings (Body frame) of
                 None \<Rightarrow> Ok dest
               | Some l \<Rightarrow> wrap ''cannot encode body warnings'' (WriteStringList l dest))
       (\<lambda>dest.
     and_then (findEncoder c frame) (\<lambda>encoder.
     wrap ''cannot encode body message''
       (enc_Encode encoder (Message (Body frame)) dest (Version (Header frame)))))))"

text \<open>
  \<^verbatim>\<open>make([]byte, 0, n)\<close> panics when the capacity \<open>n\<close> is negative; the buffer starts
  empty.
\<close>

definition encodeFrameUncompressed :: "Codec \<Rightarrow> Frame \<Rightarrow> bytes result" where
  "encodeFrameUncompressed c frame =
     and_then (wrap ''cannot compute length of uncompressed message body''
                 (uncompressedBodyLength c frame)) (\<lambda>encodedBodyLength.
     if encodedHeaderLength + encodedBodyLength < 0 then Panic
     else
       and_then (wrap ''cannot encode frame header''
                   (encodeHeader c frame encodedBodyLength [])) (\<lambda>encodedFrame.
       wrap ''cannot encode frame body'' (encodeBodyUncompressed c frame encodedFrame)))"

definition encodeFrameCompressed :: "Codec \<Rightarrow> Frame \<Rightarrow> bytes result" where
  "encodeFrameCompressed c frame =
     and_then (wrap ''cannot compute length of uncompressed message body''
                 (uncompressedBodyLength c frame)) (\<lambda>uncompressedBodyLength.
     if uncompressedBodyLength < 0 then Panic
     else
       and_then (wrap ''cannot encode frame body'' (encodeBodyUncompressed c frame []))
         (\<lambda>uncompressedBody.
       case compressor c of
         None \<Rightarrow> Panic
       | Some Compress \<Rightarrow>
           and_then (wrap ''cannot compress frame body'' (Compress uncompressedBody))
             (\<lambda>compressedBody.
           let compressedBodyLength = int (length compressedBody)
           in and_then (wrap ''cannot encode frame header''
                          (encodeHeader c frame compressedBodyLength [])) (\<lambda>encodedFrame.
              Ok (encodedFrame @ compressedBody)))))"

definition Codec_Encode :: "Codec \<Rightarrow> Frame \<Rightarrow> bytes result" where
  "Codec_Encode c frame =
     (let version = Version (Header frame)
      in if version < ProtocolVersion4 \<and> CustomPayload (Body frame) \<noteq> None
         then Err (CustomPayloadsNotSupported version)
         else if version < ProtocolVersion4 \<and> Warnings (Body frame) \<noteq> None
         then Err (WarningsNotSupported version)
         else if shouldCompress c frame then encodeFrameCompressed c frame
         else encodeFrameUncompressed c frame)"

text \<open>
  Modelled from the spec: the constructor of \<^verbatim>\<open>Codec\<close> is not part of the sources at hand.
  The spec has the registry map each opcode to its message codec; these are the three
  codecs with the interface \<^verbatim>\<open>message.Encoder\<close>, each under the opcode its
  \<^verbatim>\<open>GetOpCode\<close> returns.
\<close>

definition AuthChallengeCodec :: Encoder where
  "AuthChallengeCodec =
     \<lparr>enc_Encode = AuthChallengeCodec_Encode,
      enc_EncodedLength = AuthChallengeCodec_EncodedLength\<rparr>"

definition AuthResponseCodec :: Encoder where
  "AuthResponseCodec =
     \<lparr>enc_Encode = AuthResponseCodec_Encode,
      enc_EncodedLength = AuthResponseCodec_EncodedLength\<rparr>"

definition ReadyCodec :: Encoder where
  "ReadyCodec =
     \<lparr>enc_Encode = ReadyCodec_Encode, enc_EncodedLength = ReadyCodec_EncodedLength\<rparr>"

definition registry :: "OpCode \<Rightarrow> Encoder option" where
  "registry opCode =
     (if opCode = OpCodeAuthChallenge then Some AuthChallengeCodec
      else if opCode = OpCodeAuthResponse then Some AuthResponseCodec
      else if opCode = OpCodeReady then Some ReadyCodec
      else None)"

definition NewCodec :: "(bytes \<Rightarrow> bytes result) option \<Rightarrow> Codec" where
  "NewCodec cmpr = \<lparr>codecs = registry, compressor = cmpr\<rparr>"

subsection \<open>Primitives of the event codec\<close>

text \<open>
  Modelled from the spec: package \<^verbatim>\<open>primitives\<close> is not part of the sources at hand. The
  spec has inet as a byte \<open>a\<close> (4 or 16), \<open>a\<close> bytes of address and an int port, of length
  \<open>1 + a + 4\<close>. A reader returns its value and the unread remainder; it fails with
  \<open>ShortRead\<close> when the declared length exceeds what is left and with \<open>InvalidEncoding\<close>
  when the length byte of an inet is neither 4 nor 16.
\<close>

definition WriteInet :: "Inet \<Rightarrow> bytes \<Rightarrow> bytes result" where
  "WriteInet inet dest =
     (if length (Addr inet) = 4 \<or> length (Addr inet) = 16
      then Ok (dest @ [of_nat (length (Addr inet))] @ Addr inet @ int_bytes (Port inet))
      else Err InvalidEncoding)"

definition LengthOfInet :: "Inet \<Rightarrow> int result" where
  "LengthOfInet inet =
     (if length (Addr inet) = 4 \<or> length (Addr inet) = 16
      then Ok (1 + int (length (Addr inet)) + 4)
      else Err InvalidEncoding)"

fun ReadShort :: "bytes \<Rightarrow> (nat \<times> bytes) result" where
  "ReadShort (b1 # b0 # rest) = Ok (unat b1 * 256 + unat b0, rest)"
| "ReadShort source = Err ShortRead"

fun ReadInt :: "bytes \<Rightarrow> (32 word \<times> bytes) result" where
  "ReadInt (b3 # b2 # b1 # b0 # rest) =
     Ok (push_bit 24 (ucast b3) OR push_bit 16 (ucast b2) OR push_bit 8 (ucast b1) OR ucast b0,
         rest)"
| "ReadInt source = Err ShortRead"

definition ReadString :: "bytes \<Rightarrow> (string \<times> bytes) result" where
  "ReadString source =
     and_then (ReadShort source) (\<lambda>(n, rest).
     if length rest < n then Err ShortRead
     else Ok (map (\<lambda>b. char_of (unat b)) (take n rest), drop n rest))"

fun read_strings :: "nat \<Rightarrow> bytes \<Rightarrow> (string list \<times> bytes) result" where
  "read_strings 0 source = Ok ([], source)"
| "read_strings (Suc n) source =
     and_then (ReadString source) (\<lambda>(s, rest).
     and_then (read_strings n rest) (\<lambda>(l, rest). Ok (s # l, rest)))"

definition ReadStringList :: "bytes \<Rightarrow> (string list \<times> bytes) result" where
  "ReadStringList source = and_then (ReadShort source) (\<lambda>(n, rest). read_strings n rest)"

definition ReadInet :: "bytes \<Rightarrow> (Inet \<times> bytes) result" where
  "ReadInet source =
     (case source of
        [] \<Rightarrow> Err ShortRead
      | a # rest \<Rightarrow>
          if a = 4 \<or> a = 16
          then if length rest < unat a then Err ShortRead
               else and_then (ReadInt (drop (unat a) rest)) (\<lambda>(port, rest').
                    Ok (\<lparr>Addr = take (unat a) rest, Port = port\<rparr>, rest'))
          else Err InvalidEncoding)"

subsection \<open>\<^verbatim>\<open>EventCodec\<close>\<close>

text \<open>
  Type assertions on a message: each yields the struct when the dynamic type of the
  message is the asserted one, and nothing for every other dynamic type.
\<close>

fun to_Event :: "Message \<Rightarrow> Event option" where
  "to_Event (EventMsg e) = Some e"
| "to_Event msg = None"

fun to_SchemaChangeEvent :: "Message \<Rightarrow> SchemaChangeEvent option" where
  "to_SchemaChangeEvent (SchemaChangeEventMsg e) = Some e"
| "to_SchemaChangeEvent msg = None"

fun to_StatusChangeEvent :: "Message \<Rightarrow> StatusChangeEvent option" where
  "to_StatusChangeEvent (StatusChangeEventMsg e) = Some e"
| "to_StatusChangeEvent msg = None"

fun to_TopologyChangeEvent :: "Message \<Rightarrow> TopologyChangeEvent option" where
  "to_TopologyChangeEvent (TopologyChangeEventMsg e) = Some e"
| "to_TopologyChangeEvent msg = None"

text \<open>
  \<^verbatim>\<open>Encode\<close> starts with the unchecked assertion \<^verbatim>\<open>event := msg.(*message.Event)\<close>, which
  panics unless the dynamic type is \<^verbatim>\<open>*Event\<close>; inside each case of the switch it asserts
  the event struct of the case in the checked form. The result is the destination as it
  is after the writes.
\<close>

definition EventCodec_Encode :: "Message \<Rightarrow> bytes \<Rightarrow> ProtocolVersion \<Rightarrow> bytes result" where
  "EventCodec_Encode msg dest version =
     (case to_Event msg of
        None \<Rightarrow> Panic
      | Some event \<Rightarrow>
          and_then (WriteString (ev_Type event) dest) (\<lambda>dest.
          if ev_Type event = EventTypeSchemaChange then
            (case to_SchemaChangeEvent msg of
               None \<Rightarrow> Err (ExpectedType ''SchemaChangeEvent'')
             | Some sce \<Rightarrow>
                 and_then (wrap ''cannot write SchemaChangeEvent.ChangeType''
                             (WriteString (sce_ChangeType sce) dest)) (\<lambda>dest.
                 and_then (wrap ''cannot write SchemaChangeEvent.Target''
                             (WriteString (sce_Target sce) dest)) (\<lambda>dest.
                 and_then (wrap ''cannot write SchemaChangeEvent.Keyspace''
                             (WriteString (sce_Keyspace sce) dest)) (\<lambda>dest.
                 if sce_Target sce = SchemaChangeTargetKeyspace then Ok dest
                 else if sce_Target sce = SchemaChangeTargetTable
                       \<or> sce_Target sce = SchemaChangeTargetType then
                   wrap ''cannot write SchemaChangeEvent.Object''
                     (WriteString (sce_Object sce) dest)
                 else if sce_Target sce = SchemaChangeTargetAggregate
                       \<or> sce_Target sce = SchemaChangeTargetFunction then
                   (if version < ProtocolVersion4
                    then Err (SchemaChangeNotSupported (sce_Target sce) version)
                    else
                      and_then (wrap ''cannot write SchemaChangeEvent.Object''
                                  (WriteString (sce_Object sce) dest)) (\<lambda>dest.
                      wrap ''cannot write SchemaChangeEvent.Arguments''
                        (WriteStringList (sce_Arguments sce) dest)))
                 else Err (UnknownSchemaChangeTarget (sce_Target sce))))))
          else if ev_Type event = EventTypeStatusChange then
            (case to_StatusChangeEvent msg of
               None \<Rightarrow> Err (ExpectedType ''StatusChangeEvent'')
             | Some sce \<Rightarrow>
                 and_then (wrap ''cannot write StatusChangeEvent.ChangeType''
                             (WriteString (stce_ChangeType sce) dest)) (\<lambda>dest.
                 wrap ''cannot write StatusChangeEvent.Address''
                   (WriteInet (stce_Address sce) dest)))
          else if ev_Type event = EventTypeTopologyChange then
            (case to_TopologyChangeEvent msg of
               None \<Rightarrow> Err (ExpectedType ''TopologyChangeEvent'')
             | Some tce \<Rightarrow>
                 and_then (wrap ''cannot write TopologyChangeEvent.ChangeType''
                             (WriteString (tce_ChangeType tce) dest)) (\<lambda>dest.
                 wrap ''cannot write TopologyChangeEvent.Address''
                   (WriteInet (tce_Address tce) dest)))
          else Err (UnknownEventType (ev_Type event))))"

definition EventCodec_EncodedSize :: "Message \<Rightarrow> ProtocolVersion \<Rightarrow> int result" where
  "EventCodec_EncodedSize msg version =
     (case to_Event msg of
        None \<Rightarrow> Panic
      | Some event \<Rightarrow>
          let size = LengthOfString (ev_Type event)
          in if ev_Type event = EventTypeSchemaChange then
               (case to_SchemaChangeEvent msg of
                  None \<Rightarrow> Err (ExpectedType ''SchemaChangeEvent'')
                | Some sce \<Rightarrow>
                    let size = size + LengthOfString (sce_ChangeType sce);
                        size = size + LengthOfString (sce_Target sce);
                        size = size + LengthOfString (sce_Keyspace sce)
                    in if sce_Target sce = SchemaChangeTargetKeyspace then Ok size
                       else if sce_Target sce = SchemaChangeTargetTable
                             \<or> sce_Target sce = SchemaChangeTargetType then
                         Ok (size + LengthOfString (sce_Object sce))
                       else if sce_Target sce = SchemaChangeTargetAggregate
                             \<or> sce_Target sce = SchemaChangeTargetFunction then
                         (if version < ProtocolVersion4
                          then Err (SchemaChangeNotSupported (sce_Target sce) version)
                          else Ok (size + LengthOfString (sce_Object sce)
                                     + LengthOfStringList (sce_Arguments sce)))
                       else Err (UnknownSchemaChangeTarget (sce_Target sce)))
             else if ev_Type event = EventTypeStatusChange then
               (case to_StatusChangeEvent msg of
                  None \<Rightarrow> Err (ExpectedType ''StatusChangeEvent'')
                | Some sce \<Rightarrow>
                    let size = size + LengthOfString (stce_ChangeType sce)
                    in and_then (wrap ''cannot compute length of StatusChangeEvent.Address''
                                   (LengthOfInet (stce_Address sce))) (\<lambda>inetLength.
                       Ok (size + inetLength)))
             else if ev_Type event = EventTypeTopologyChange then
               (case to_TopologyChangeEvent msg of
                  None \<Rightarrow> Err (ExpectedType ''TopologyChangeEvent'')
                | Some tce \<Rightarrow>
                    let size = size + LengthOfString (tce_ChangeType tce)
                    in and_then (wrap ''cannot compute length of TopologyChangeEvent.Address''
                                   (LengthOfInet (tce_Address tce))) (\<lambda>inetLength.
                       Ok (size + inetLength)))
             else Err (UnknownEventType (ev_Type event)))"

text \<open>
  \<^verbatim>\<open>Decode\<close> reads the event type with \<^verbatim>\<open>eventType, _, err := primitives.ReadString(source)\<close>:
  the remainder is dropped, and the next read starts at the first byte of \<^verbatim>\<open>source\<close>
  again. Every later read assigns the remainder back to \<^verbatim>\<open>source\<close>. Fields that are not
  read keep their zero value.
\<close>

definition EventCodec_Decode :: "bytes \<Rightarrow> ProtocolVersion \<Rightarrow> Message result" where
  "EventCodec_Decode source version =
     and_then (ReadString source) (\<lambda>(eventType, _).
     if eventType = EventTypeSchemaChange then
       and_then (wrap ''cannot read SchemaChangeEvent.ChangeType'' (ReadString source))
         (\<lambda>(changeType, source).
       and_then (wrap ''cannot read SchemaChangeEvent.Target'' (ReadString source))
         (\<lambda>(target, source).
       and_then (wrap ''cannot read SchemaChangeEvent.Keyspace'' (ReadString source))
         (\<lambda>(keyspace, source).
       let sce = \<lparr>ev_Type = eventType, sce_ChangeType = changeType, sce_Target = target,
                  sce_Keyspace = keyspace, sce_Object = [], sce_Arguments = []\<rparr>
       in if target = SchemaChangeTargetKeyspace then Ok (SchemaChangeEventMsg sce)
          else if target = SchemaChangeTargetTable \<or> target = SchemaChangeTargetType then
            and_then (wrap ''cannot read SchemaChangeEvent.Object'' (ReadString source))
              (\<lambda>(object, source).
            Ok (SchemaChangeEventMsg (sce\<lparr>sce_Object := object\<rparr>)))
          else if target = SchemaChangeTargetAggregate
                \<or> target = SchemaChangeTargetFunction then
            (if version < ProtocolVersion4
             then Err (SchemaChangeNotSupported target version)
             else
               and_then (wrap ''cannot read SchemaChangeEvent.Object'' (ReadString source))
                 (\<lambda>(object, source).
               and_then (wrap ''cannot read SchemaChangeEvent.Arguments''
                           (ReadStringList source)) (\<lambda>(arguments, source).
               Ok (SchemaChangeEventMsg
                     (sce\<lparr>sce_Object := object, sce_Arguments := arguments\<rparr>)))))
          else Err (UnknownSchemaChangeTarget target))))
     else if eventType = EventTypeStatusChange then
       and_then (wrap ''cannot read StatusChangeEvent.ChangeType'' (ReadString source))
         (\<lambda>(changeType, source).
       and_then (wrap ''cannot read StatusChangeEvent.Address'' (ReadInet source))
         (\<lambda>(address, source).
       Ok (StatusChangeEventMsg
             \<lparr>ev_Type = eventType, stce_ChangeType = changeType, stce_Address = address\<rparr>)))
     else if eventType = EventTypeTopologyChange then
       and_then (wrap ''cannot read TopologyChangeEvent.ChangeType'' (ReadString source))
         (\<lambda>(changeType, source).
       and_then (wrap ''cannot read TopologyChangeEvent.Address'' (ReadInet source))
         (\<lambda>(address, source).
       Ok (TopologyChangeEventMsg
             \<lparr>ev_Type = eventType, tce_ChangeType = changeType, tce_Address = address\<rparr>)))
     else Err (UnknownEventType eventType))"

section \<open>Properties\<close>

subsection \<open>Shared facts\<close>

lemma and_then_Ok_iff: "and_then m f = Ok y \<longleftrightarrow> (\<exists>x. m = Ok x \<and> f x = Ok y)"
  by (cases m) simp_all

lemma wrap_Ok_iff: "wrap ctx m = Ok x \<longleftrightarrow> m = Ok x"
  by (cases m) simp_all

lemma length_short_bytes: "length (short_bytes w) = 2"
  by (simp add: short_bytes_def)

lemma length_int_bytes: "length (int_bytes w) = 4"
  by (simp add: int_bytes_def)

lemma length_uuid_bytes: "length (uuid_bytes u) = 16"
  by (simp add: uuid_bytes_def)

lemma length_string_bytes: "int (length (string_bytes s)) = LengthOfString s"
  by (simp add: string_bytes_def LengthOfString_def length_short_bytes)

lemma length_bytes_bytes: "int (length (bytes_bytes b)) = LengthOfBytes b"
  by (cases b) (simp_all add: bytes_bytes_def LengthOfBytes_def length_int_bytes)

lemma length_concat_string_bytes:
  "int (length (concat (map string_bytes l))) = sum_list (map LengthOfString l)"
  by (induction l) (simp_all add: length_string_bytes)

lemma length_string_list_bytes: "int (length (string_list_bytes l)) = LengthOfStringList l"
  by (simp add: string_list_bytes_def LengthOfStringList_def length_short_bytes
      length_concat_string_bytes)

lemma length_concat_entries:
  "int (length (concat (map (\<lambda>(k, v). string_bytes k @ bytes_bytes v) m)))
     = sum_list (map (\<lambda>(k, v). LengthOfString k + LengthOfBytes v) m)"
  by (induction m) (simp_all add: length_string_bytes length_bytes_bytes split: prod.splits)

lemma length_bytes_map_bytes: "int (length (bytes_map_bytes m)) = LengthOfBytesMap m"
  by (simp add: bytes_map_bytes_def LengthOfBytesMap_def length_short_bytes
      length_concat_entries)

lemma targets_distinct:
  "SchemaChangeTargetKeyspace \<noteq> SchemaChangeTargetFunction"
  "SchemaChangeTargetKeyspace \<noteq> SchemaChangeTargetAggregate"
  "SchemaChangeTargetTable \<noteq> SchemaChangeTargetFunction"
  "SchemaChangeTargetTable \<noteq> SchemaChangeTargetAggregate"
  "SchemaChangeTargetType \<noteq> SchemaChangeTargetFunction"
  "SchemaChangeTargetType \<noteq> SchemaChangeTargetAggregate"
  by (simp_all add: SchemaChangeTargetKeyspace_def SchemaChangeTargetTable_def
      SchemaChangeTargetType_def SchemaChangeTargetFunction_def SchemaChangeTargetAggregate_def)

subsection \<open>The frame encoder\<close>

text \<open>
  C6 (the flags byte). For every codec and frame, bit 0 (compressed) of the flags is set
  exactly when a compressor is present and the opcode of the message is neither STARTUP
  nor OPTIONS, bit 1 (tracing) exactly when the tracing id is present or tracing is
  requested, bit 2 (custom payload) exactly when the custom payload is present, bit 3
  (warning) exactly when the warnings are present, bit 4 (use-beta) exactly when the
  version is the beta version, and bits 5 to 7 are clear; this byte is the second byte of
  the header that \<^verbatim>\<open>encodeHeader\<close> writes.
\<close>

theorem encodeFlags_bits:
  "(bit (encodeFlags c frame) 0 \<longleftrightarrow>
      compressor c \<noteq> None \<and> GetOpCode (Message (Body frame)) \<noteq> OpCodeStartup
        \<and> GetOpCode (Message (Body frame)) \<noteq> OpCodeOptions)
   \<and> (bit (encodeFlags c frame) 1 \<longleftrightarrow>
      TracingId (Body frame) \<noteq> None \<or> TracingRequested (Header frame))
   \<and> (bit (encodeFlags c frame) 2 \<longleftrightarrow> CustomPayload (Body frame) \<noteq> None)
   \<and> (bit (encodeFlags c frame) 3 \<longleftrightarrow> Warnings (Body frame) \<noteq> None)
   \<and> (bit (encodeFlags c frame) 4 \<longleftrightarrow> Version (Header frame) = ProtocolVersionBeta)
   \<and> \<not> bit (encodeFlags c frame) 5
   \<and> \<not> bit (encodeFlags c frame) 6
   \<and> \<not> bit (encodeFlags c frame) 7
   \<and> (\<exists>b0 rest. encodeHeader c frame bodyLength [] = Ok (b0 # encodeFlags c frame # rest))"
proof -
  have bits: "(bit (encodeFlags c frame) 0 \<longleftrightarrow>
      compressor c \<noteq> None \<and> GetOpCode (Message (Body frame)) \<noteq> OpCodeStartup
        \<and> GetOpCode (Message (Body frame)) \<noteq> OpCodeOptions)
   \<and> (bit (encodeFlags c frame) 1 \<longleftrightarrow>
      TracingId (Body frame) \<noteq> None \<or> TracingRequested (Header frame))
   \<and> (bit (encodeFlags c frame) 2 \<longleftrightarrow> CustomPayload (Body frame) \<noteq> None)
   \<and> (bit (encodeFlags c frame) 3 \<longleftrightarrow> Warnings (Body frame) \<noteq> None)
   \<and> (bit (encodeFlags c frame) 4 \<longleftrightarrow> Version (Header frame) = ProtocolVersionBeta)
   \<and> \<not> bit (encodeFlags c frame) 5
   \<and> \<not> bit (encodeFlags c frame) 6
   \<and> \<not> bit (encodeFlags c frame) 7"
    by (simp add: encodeFlags_def shouldCompress_def Let_def bit_or_iff
        HeaderFlagCompressed_def HeaderFlagTracing_def HeaderFlagCustomPayload_def
        HeaderFlagWarning_def HeaderFlagUseBeta_def)
  have hdr: "\<exists>b0 rest. encodeHeader c frame bodyLength [] = Ok (b0 # encodeFlags c frame # rest)"
    by (simp add: encodeHeader_def Let_def WriteByte_def WriteShort_def WriteInt_def)
  from bits hdr show ?thesis by blast
qed

text \<open>
  The flags of an AUTH_CHALLENGE frame of the beta version with tracing requested and an
  empty custom payload, encoded by a codec with a compressor: compressed, tracing,
  custom payload and use-beta are set, warning is clear.
\<close>

theorem encodeFlags_bits_witness:
  "bit (encodeFlags (NewCodec (Some (\<lambda>b. Ok b)))
         \<lparr>Header = \<lparr>Version = ProtocolVersionBeta, StreamId = 0, TracingRequested = True\<rparr>,
          Body = \<lparr>Message = AuthChallenge None, TracingId = None,
                  CustomPayload = Some [], Warnings = None\<rparr>\<rparr>) 0
   \<and> bit (encodeFlags (NewCodec (Some (\<lambda>b. Ok b)))
         \<lparr>Header = \<lparr>Version = ProtocolVersionBeta, StreamId = 0, TracingRequested = True\<rparr>,
          Body = \<lparr>Message = AuthChallenge None, TracingId = None,
                  CustomPayload = Some [], Warnings = None\<rparr>\<rparr>) 1
   \<and> bit (encodeFlags (NewCodec (Some (\<lambda>b. Ok b)))
         \<lparr>Header = \<lparr>Version = ProtocolVersionBeta, StreamId = 0, TracingRequested = True\<rparr>,
          Body = \<lparr>Message = AuthChallenge None, TracingId = None,
                  CustomPayload = Some [], Warnings = None\<rparr>\<rparr>) 2
   \<and> \<not> bit (encodeFlags (NewCodec (Some (\<lambda>b. Ok b)))
         \<lparr>Header = \<lparr>Version = ProtocolVersionBeta, StreamId = 0, TracingRequested = True\<rparr>,
          Body = \<lparr>Message = AuthChallenge None, TracingId = None,
                  CustomPayload = Some [], Warnings = None\<rparr>\<rparr>) 3
   \<and> bit (encodeFlags (NewCodec (Some (\<lambda>b. Ok b)))
         \<lparr>Header = \<lparr>Version = ProtocolVersionBeta, StreamId = 0, TracingRequested = True\<rparr>,
          Body = \<lparr>Message = AuthChallenge None, TracingId = None,
                  CustomPayload = Some [], Warnings = None\<rparr>\<rparr>) 4"
proof -
  let ?c = "NewCodec (Some (\<lambda>b. Ok b))"
  let ?f = "\<lparr>Header = \<lparr>Version = ProtocolVersionBeta, StreamId = 0, TracingRequested = True\<rparr>,
          Body = \<lparr>Message = AuthChallenge None, TracingId = None,
                  CustomPayload = Some [], Warnings = None\<rparr>\<rparr>"
  have c: "compressor ?c \<noteq> None" by (simp add: NewCodec_def)
  have o1: "GetOpCode (Message (Body ?f)) \<noteq> OpCodeStartup"
    by (simp add: OpCodeAuthChallenge_def OpCodeStartup_def)
  have o2: "GetOpCode (Message (Body ?f)) \<noteq> OpCodeOptions"
    by (simp add: OpCodeAuthChallenge_def OpCodeOptions_def)
  from encodeFlags_bits [of ?c ?f 0] c o1 o2 show ?thesis by simp
qed

text \<open>
  C7 (the tracing id in the body). Let the registry hold an encoder for the opcode of the
  message, and let that encoder append the bytes \<open>msg_bytes\<close> to its destination. Then
  the body writer appends, in this order, the 16 bytes of the tracing id if and only if
  the message is a response and the tracing id is present, the custom payload if present,
  the warnings if present, and \<open>msg_bytes\<close>. On a request with a tracing id no byte of
  the tracing id is written.
\<close>

theorem encodeBodyUncompressed_tracing_id:
  assumes "findEncoder c frame = Ok encoder"
    and "\<And>d. enc_Encode encoder (Message (Body frame)) d (Version (Header frame))
           = Ok (d @ msg_bytes)"
  shows "encodeBodyUncompressed c frame dest =
     Ok (dest
         @ (if IsResponse (Message (Body frame)) \<and> TracingId (Body frame) \<noteq> None
            then uuid_bytes (the (TracingId (Body frame))) else [])
         @ (case CustomPayload (Body frame) of None \<Rightarrow> [] | Some m \<Rightarrow> bytes_map_bytes m)
         @ (case Warnings (Body frame) of None \<Rightarrow> [] | Some l \<Rightarrow> string_list_bytes l)
         @ msg_bytes)
     \<and> length (uuid_bytes (the (TracingId (Body frame)))) = 16"
  using assms
  by (simp add: encodeBodyUncompressed_def WriteUuid_def WriteBytesMap_def WriteStringList_def
      length_uuid_bytes split: option.splits)

text \<open>
  Two frames of version 4 with the tracing id 7: the body of the request
  \<^verbatim>\<open>AuthResponse\<close> is the token alone, the body of the response \<^verbatim>\<open>AuthChallenge\<close>
  starts with the 16 bytes of the tracing id.
\<close>

theorem encodeBodyUncompressed_tracing_id_witness:
  "encodeBodyUncompressed (NewCodec None)
     \<lparr>Header = \<lparr>Version = ProtocolVersion4, StreamId = 0, TracingRequested = False\<rparr>,
      Body = \<lparr>Message = AuthResponse (Some [0x01, 0x02, 0x03]), TracingId = Some 7,
              CustomPayload = None, Warnings = None\<rparr>\<rparr> []
     = Ok [0x00, 0x00, 0x00, 0x03, 0x01, 0x02, 0x03]
   \<and> encodeBodyUncompressed (NewCodec None)
     \<lparr>Header = \<lparr>Version = ProtocolVersion4, StreamId = 0, TracingRequested = False\<rparr>,
      Body = \<lparr>Message = AuthChallenge (Some [0x01, 0x02, 0x03]), TracingId = Some 7,
              CustomPayload = None, Warnings = None\<rparr>\<rparr> []
     = Ok ([0, 0, 0, 0, 0, 0, 0, 0, 0, 0, 0, 0, 0, 0, 0, 0x07]
           @ [0x00, 0x00, 0x00, 0x03, 0x01, 0x02, 0x03])"
proof -
  let ?req = "\<lparr>Header = \<lparr>Version = ProtocolVersion4, StreamId = 0, TracingRequested = False\<rparr>,
      Body = \<lparr>Message = AuthResponse (Some [0x01, 0x02, 0x03]), TracingId = Some 7,
              CustomPayload = None, Warnings = None\<rparr>\<rparr>"
  let ?rsp = "\<lparr>Header = \<lparr>Version = ProtocolVersion4, StreamId = 0, TracingRequested = False\<rparr>,
      Body = \<lparr>Message = AuthChallenge (Some [0x01, 0x02, 0x03]), TracingId = Some 7,
              CustomPayload = None, Warnings = None\<rparr>\<rparr>"
  have f1: "findEncoder (NewCodec None) ?req = Ok AuthResponseCodec"
    by (simp add: findEncoder_def NewCodec_def registry_def OpCodeAuthResponse_def
        OpCodeAuthChallenge_def)
  have e1: "enc_Encode AuthResponseCodec (Message (Body ?req)) d (Version (Header ?req))
              = Ok (d @ bytes_bytes (Some [0x01, 0x02, 0x03]))" for d
    by (simp add: AuthResponseCodec_def WriteBytes_def)
  have f2: "findEncoder (NewCodec None) ?rsp = Ok AuthChallengeCodec"
    by (simp add: findEncoder_def NewCodec_def registry_def)
  have e2: "enc_Encode AuthChallengeCodec (Message (Body ?rsp)) d (Version (Header ?rsp))
              = Ok (d @ bytes_bytes (Some [0x01, 0x02, 0x03]))" for d
    by (simp add: AuthChallengeCodec_def WriteBytes_def)
  have u: "uuid_bytes 7 = [0, 0, 0, 0, 0, 0, 0, 0, 0, 0, 0, 0, 0, 0, 0, 0x07]"
    by code_simp
  have b: "bytes_bytes (Some [0x01, 0x02, 0x03]) = [0x00, 0x00, 0x00, 0x03, 0x01, 0x02, 0x03]"
    by code_simp
  have r1: "encodeBodyUncompressed (NewCodec None) ?req []
              = Ok [0x00, 0x00, 0x00, 0x03, 0x01, 0x02, 0x03]"
    using encodeBodyUncompressed_tracing_id [OF f1 e1, of "[]"] by (simp add: b)
  have r2: "encodeBodyUncompressed (NewCodec None) ?rsp []
              = Ok ([0, 0, 0, 0, 0, 0, 0, 0, 0, 0, 0, 0, 0, 0, 0, 0x07]
                    @ [0x00, 0x00, 0x00, 0x03, 0x01, 0x02, 0x03])"
    using encodeBodyUncompressed_tracing_id [OF f2 e2, of "[]"] by (simp add: u b)
  from r1 r2 show ?thesis by (rule conjI)
qed

text \<open>
  Where the message is a response or the frame has no tracing id, and the message encoder
  predicts the length of what it appends, \<^verbatim>\<open>uncompressedBodyLength\<close> is the number of
  bytes that \<^verbatim>\<open>encodeBodyUncompressed\<close> writes.
\<close>

lemma uncompressedBodyLength_agrees:
  assumes "findEncoder c frame = Ok encoder"
    and "enc_EncodedLength encoder (Message (Body frame)) (Version (Header frame))
           = Ok (int (length msg_bytes))"
    and "\<And>d. enc_Encode encoder (Message (Body frame)) d (Version (Header frame))
           = Ok (d @ msg_bytes)"
    and "IsResponse (Message (Body frame)) \<or> TracingId (Body frame) = None"
  shows "\<exists>body. encodeBodyUncompressed c frame [] = Ok body
           \<and> uncompressedBodyLength c frame = Ok (int (length body))"
proof -
  have body: "encodeBodyUncompressed c frame [] =
     Ok ((case TracingId (Body frame) of None \<Rightarrow> [] | Some u \<Rightarrow> uuid_bytes u)
         @ (case CustomPayload (Body frame) of None \<Rightarrow> [] | Some m \<Rightarrow> bytes_map_bytes m)
         @ (case Warnings (Body frame) of None \<Rightarrow> [] | Some l \<Rightarrow> string_list_bytes l)
         @ msg_bytes)"
    using assms(1,3,4)
    by (auto simp: encodeBodyUncompressed_def WriteUuid_def WriteBytesMap_def
        WriteStringList_def split: option.splits)
  have len: "uncompressedBodyLength c frame =
     Ok (int (length msg_bytes)
         + (case TracingId (Body frame) of None \<Rightarrow> 0 | Some u \<Rightarrow> 16)
         + (case CustomPayload (Body frame) of None \<Rightarrow> 0 | Some m \<Rightarrow> LengthOfBytesMap m)
         + (case Warnings (Body frame) of None \<Rightarrow> 0 | Some l \<Rightarrow> LengthOfStringList l))"
    using assms(1,2)
    by (simp add: uncompressedBodyLength_def Let_def LengthOfUuid_def split: option.splits)
  show ?thesis
    unfolding body len
    by (simp add: length_uuid_bytes length_bytes_map_bytes [symmetric]
        length_string_list_bytes [symmetric] split: option.splits)
qed

text \<open>
  C2 (the computed body length is the number of bytes written). For the request frame
  with message \<^verbatim>\<open>AuthResponse\<close> (token 01 02 03) and a tracing id, at version 4 without
  compressor, \<^verbatim>\<open>uncompressedBodyLength\<close> is 23: it counts the 16 bytes of the tracing id.
  The body writer omits the tracing id of a request and writes 7 bytes, and the encoded
  frame declares a body of 0x17 = 23 bytes in front of a body of 7.
\<close>

theorem uncompressedBodyLength_request_tracing_id:
  "uncompressedBodyLength (NewCodec None)
     \<lparr>Header = \<lparr>Version = ProtocolVersion4, StreamId = 0, TracingRequested = False\<rparr>,
      Body = \<lparr>Message = AuthResponse (Some [0x01, 0x02, 0x03]), TracingId = Some 7,
              CustomPayload = None, Warnings = None\<rparr>\<rparr> = Ok 23
   \<and> encodeBodyUncompressed (NewCodec None)
     \<lparr>Header = \<lparr>Version = ProtocolVersion4, StreamId = 0, TracingRequested = False\<rparr>,
      Body = \<lparr>Message = AuthResponse (Some [0x01, 0x02, 0x03]), TracingId = Some 7,
              CustomPayload = None, Warnings = None\<rparr>\<rparr> []
       = Ok [0x00, 0x00, 0x00, 0x03, 0x01, 0x02, 0x03]
   \<and> Codec_Encode (NewCodec None)
     \<lparr>Header = \<lparr>Version = ProtocolVersion4, StreamId = 0, TracingRequested = False\<rparr>,
      Body = \<lparr>Message = AuthResponse (Some [0x01, 0x02, 0x03]), TracingId = Some 7,
              CustomPayload = None, Warnings = None\<rparr>\<rparr>
       = Ok ([0x04, 0x02, 0x00, 0x00, 0x0F, 0x00, 0x00, 0x00, 0x17]
             @ [0x00, 0x00, 0x00, 0x03, 0x01, 0x02, 0x03])"
  by code_simp

text \<open>
  C3 (the READY frame of version 4). \<^verbatim>\<open>Ready.IsResponse\<close> returns false, so the encoder
  leaves the direction bit clear: the frame is encoded as 04 00 00 00 02 00 00 00 00, with
  first byte 0x04 where the claim has 0x84.
\<close>

theorem Encode_Ready_v4_bytes:
  "Codec_Encode (NewCodec None)
     \<lparr>Header = \<lparr>Version = ProtocolVersion4, StreamId = 0, TracingRequested = False\<rparr>,
      Body = \<lparr>Message = Ready, TracingId = None, CustomPayload = None, Warnings = None\<rparr>\<rparr>
   = Ok [0x04, 0x00, 0x00, 0x00, 0x02, 0x00, 0x00, 0x00, 0x00]
   \<and> IsResponse Ready = False"
  by code_simp

text \<open>
  C9 (the AUTH_CHALLENGE frame of version 4). With token 01 02 03, stream id 0, no
  compressor and no optional field, the encoder returns the header
  84 00 00 00 0E 00 00 00 07 followed by the body 00 00 00 03 01 02 03.
\<close>

theorem Encode_AuthChallenge_v4_bytes:
  "Codec_Encode (NewCodec None)
     \<lparr>Header = \<lparr>Version = ProtocolVersion4, StreamId = 0, TracingRequested = False\<rparr>,
      Body = \<lparr>Message = AuthChallenge (Some [0x01, 0x02, 0x03]), TracingId = None,
              CustomPayload = None, Warnings = None\<rparr>\<rparr>
   = Ok ([0x84, 0x00, 0x00, 0x00, 0x0E, 0x00, 0x00, 0x00, 0x07]
         @ [0x00, 0x00, 0x00, 0x03, 0x01, 0x02, 0x03])"
  by code_simp

text \<open>
  Below version 4, \<^verbatim>\<open>Codec.Encode\<close> returns an error for a frame with a custom payload and
  for a frame with warnings, whatever the registry and the compressor.
\<close>

lemma Codec_Encode_custom_payload_below_v4:
  "Version (Header frame) < ProtocolVersion4 \<Longrightarrow> CustomPayload (Body frame) \<noteq> None
   \<Longrightarrow> Codec_Encode c frame = Err (CustomPayloadsNotSupported (Version (Header frame)))"
  by (simp add: Codec_Encode_def Let_def)

lemma Codec_Encode_warnings_below_v4:
  "Version (Header frame) < ProtocolVersion4 \<Longrightarrow> Warnings (Body frame) \<noteq> None
   \<Longrightarrow> Codec_Encode c frame = Err (CustomPayloadsNotSupported (Version (Header frame)))
       \<or> Codec_Encode c frame = Err (WarningsNotSupported (Version (Header frame)))"
  by (simp add: Codec_Encode_def Let_def)

subsection \<open>Message codecs\<close>

text \<open>
  C4 (a message of the wrong type makes \<^verbatim>\<open>Encode\<close> return an error). Given an
  \<^verbatim>\<open>AuthChallenge\<close>, \<^verbatim>\<open>AuthResponseCodec.Encode\<close> and \<^verbatim>\<open>EncodedLength\<close> panic instead of
  returning an error, and so does \<^verbatim>\<open>EventCodec.Encode\<close> given a \<^verbatim>\<open>Ready\<close>;
  \<^verbatim>\<open>ReadyCodec.Encode\<close> accepts the \<^verbatim>\<open>AuthChallenge\<close> and writes nothing. Only
  \<^verbatim>\<open>AuthChallengeCodec.Encode\<close> returns the error.
\<close>

theorem AuthResponseCodec_Encode_type_mismatch_panics:
  "AuthResponseCodec_Encode (AuthChallenge (Some [0x01])) [] ProtocolVersion4 = Panic
   \<and> AuthResponseCodec_EncodedLength (AuthChallenge (Some [0x01])) ProtocolVersion4 = Panic
   \<and> AuthChallengeCodec_Encode (AuthResponse (Some [0x01])) [] ProtocolVersion4
       = Err (ExpectedType ''*AuthChallenge'')
   \<and> ReadyCodec_Encode (AuthChallenge (Some [0x01])) [] ProtocolVersion4 = Ok []
   \<and> EventCodec_Encode Ready [] ProtocolVersion4 = Panic"
  by (simp add: ReadyCodec_Encode_def EventCodec_Encode_def)

text \<open>
  C10 (\<^verbatim>\<open>ReadyCodec.Decode\<close> reads nothing). For every source and version the result is a
  \<^verbatim>\<open>Ready\<close> message and the source is left as it was, empty or not; in particular the
  body that \<^verbatim>\<open>ReadyCodec.Encode\<close> writes, followed by any trailing bytes, decodes to
  \<^verbatim>\<open>Ready\<close> with the trailing bytes unread.
\<close>

theorem ReadyCodec_Decode_ignores_source:
  "ReadyCodec_Decode source version = Ok (Ready, source)
   \<and> and_then (ReadyCodec_Encode msg [] version)
         (\<lambda>body. ReadyCodec_Decode (body @ trailing) version)
       = Ok (Ready, trailing)"
  by (simp add: ReadyCodec_Decode_def ReadyCodec_Encode_def)

subsection \<open>The \<^verbatim>\<open>EVENT\<close> codec\<close>

text \<open>
  No message makes \<^verbatim>\<open>EventCodec.Encode\<close> or \<^verbatim>\<open>EventCodec.EncodedSize\<close> return normally:
  the first assertion passes only for the dynamic type \<^verbatim>\<open>*Event\<close>, and then the checked
  assertion of the matching case fails.
\<close>

lemma EventCodec_Encode_never_Ok: "EventCodec_Encode msg dest version \<noteq> Ok out"
  by (cases msg) (simp_all add: EventCodec_Encode_def WriteString_def)

lemma EventCodec_EncodedSize_never_Ok: "EventCodec_EncodedSize msg version \<noteq> Ok n"
  by (cases msg) (simp_all add: EventCodec_EncodedSize_def Let_def)

text \<open>
  Below version 4, \<^verbatim>\<open>EventCodec.Decode\<close> returns no schema-change event whose target is
  FUNCTION or AGGREGATE.
\<close>

lemma EventCodec_Decode_function_below_v4:
  assumes v: "version < ProtocolVersion4"
    and d: "EventCodec_Decode source version = Ok (SchemaChangeEventMsg sce)"
  shows "sce_Target sce \<noteq> SchemaChangeTargetFunction
         \<and> sce_Target sce \<noteq> SchemaChangeTargetAggregate"
proof -
  from d obtain eventType r0 where rd: "ReadString source = Ok (eventType, r0)"
    by (cases "ReadString source") (auto simp: EventCodec_Decode_def)
  show ?thesis
  proof (cases "eventType = EventTypeSchemaChange")
    case True
    with d rd v show ?thesis
      apply (clarsimp simp: EventCodec_Decode_def and_then_Ok_iff wrap_Ok_iff Let_def)
      apply (simp split: if_splits add: and_then_Ok_iff wrap_Ok_iff)
       apply (auto simp: targets_distinct)
      done
  next
    case False
    with d rd show ?thesis
      by (auto simp: EventCodec_Decode_def and_then_Ok_iff wrap_Ok_iff split: if_splits)
  qed
qed

text \<open>
  C1 (round trip of the event codec). The claim asks that whatever \<^verbatim>\<open>EventCodec.Encode\<close>
  serializes is decoded back to an equal message. On the code no event is serialized at
  all: for the schema-change event CREATED TABLE ks.t at version 4, \<^verbatim>\<open>Encode\<close> panics at
  its first type assertion. \<^verbatim>\<open>Decode\<close> does not read the wire layout of an event either:
  given the bytes of that event, \<open>[SCHEMA_CHANGE][CREATED][TABLE][ks][t]\<close>, it reads the
  event type a second time as the change type, takes \<open>CREATED\<close> for the target and fails;
  given the bytes of STATUS_CHANGE UP 127.0.0.1:9042 it fails on the address.
\<close>

theorem EventCodec_round_trip_defect:
  "EventCodec_Encode
     (SchemaChangeEventMsg
        \<lparr>ev_Type = ''SCHEMA_CHANGE'', sce_ChangeType = ''CREATED'', sce_Target = ''TABLE'',
         sce_Keyspace = ''ks'', sce_Object = ''t'', sce_Arguments = []\<rparr>) [] ProtocolVersion4
     = Panic
   \<and> EventCodec_Decode
       (string_bytes ''SCHEMA_CHANGE'' @ string_bytes ''CREATED'' @ string_bytes ''TABLE''
          @ string_bytes ''ks'' @ string_bytes ''t'') ProtocolVersion4
     = Err (UnknownSchemaChangeTarget ''CREATED'')
   \<and> EventCodec_Decode
       (string_bytes ''STATUS_CHANGE'' @ string_bytes ''UP''
          @ [0x04, 0x7F, 0x00, 0x00, 0x01, 0x00, 0x00, 0x23, 0x54]) ProtocolVersion4
     = Err (Wrapped ''cannot read StatusChangeEvent.Address'' InvalidEncoding)"
  by code_simp

text \<open>
  C5 (version gating below version 4). The gates of the frame codec on custom payloads and
  warnings hold (\<open>Codec_Encode_custom_payload_below_v4\<close>, \<open>Codec_Encode_warnings_below_v4\<close>),
  and \<^verbatim>\<open>Decode\<close> returns no FUNCTION or AGGREGATE schema change below version 4
  (\<open>EventCodec_Decode_function_below_v4\<close>). The gate of \<^verbatim>\<open>EventCodec.Encode\<close> is never
  reached: for a FUNCTION schema change at version 3 the call does not return the version
  error, it panics at the first type assertion.
\<close>

theorem EventCodec_Encode_function_v3_panics:
  "EventCodec_Encode
     (SchemaChangeEventMsg
        \<lparr>ev_Type = ''SCHEMA_CHANGE'', sce_ChangeType = ''CREATED'', sce_Target = ''FUNCTION'',
         sce_Keyspace = ''ks'', sce_Object = ''f'', sce_Arguments = [''int'']\<rparr>) []
     ProtocolVersion3
     = Panic"
  by (simp add: EventCodec_Encode_def)

text \<open>
  C8 (fields of a schema-change event by target, and \<^verbatim>\<open>EncodedSize\<close> against \<^verbatim>\<open>Encode\<close>).
  For the schema-change event CREATED KEYSPACE ks at version 4, \<^verbatim>\<open>Encode\<close> and
  \<^verbatim>\<open>EncodedSize\<close> both panic at their first type assertion, so that nothing is written
  and no size is returned; for a plain \<^verbatim>\<open>*Event\<close> of type SCHEMA_CHANGE, which passes that
  assertion, \<^verbatim>\<open>Encode\<close> returns the error of the checked assertion. The switch on the
  target is reached for no message.
\<close>

theorem EventCodec_Encode_schema_change_panics:
  "EventCodec_Encode
     (SchemaChangeEventMsg
        \<lparr>ev_Type = ''SCHEMA_CHANGE'', sce_ChangeType = ''CREATED'', sce_Target = ''KEYSPACE'',
         sce_Keyspace = ''ks'', sce_Object = [], sce_Arguments = []\<rparr>) [] ProtocolVersion4
     = Panic
   \<and> EventCodec_EncodedSize
     (SchemaChangeEventMsg
        \<lparr>ev_Type = ''SCHEMA_CHANGE'', sce_ChangeType = ''CREATED'', sce_Target = ''KEYSPACE'',
         sce_Keyspace = ''ks'', sce_Object = [], sce_Arguments = []\<rparr>) ProtocolVersion4
     = Panic
   \<and> EventCodec_Encode (EventMsg \<lparr>ev_Type = ''SCHEMA_CHANGE''\<rparr>) [] ProtocolVersion4
     = Err (ExpectedType ''SchemaChangeEvent'')"
  by (simp add: EventCodec_Encode_def EventCodec_EncodedSize_def WriteString_def
      EventTypeSchemaChange_def)

end
